theory Spec2Isabelle
  imports Main
begin

section \<open>JavaScript values, objects and the world\<close>

text \<open>
  The engine of \<open>HyperProc\<close> threads one state object through a queue of operation
  records. The functions of the records and the recovery handler are supplied by the
  caller; they may read and write every object (its properties and its prototype), return
  any value, throw, or never settle. The development therefore models
  \<^item> primitive values (\<open>prim\<close>). A number is given by the string that \<open>String\<close>
    prints for it (\<open>1\<close> is \<open>1\<close>, \<open>1e21\<close> is \<open>1e+21\<close>), which determines it up to
    the sign of zero: the code prints numbers and tests their truth, nothing more;
  \<^item> values (\<open>jsval\<close>): primitives, function objects, arrays (as immutable lists),
    references to heap objects, and revoked Proxy objects (over a callable target or not),
    on which every operation throws. A live Proxy answers by the traps of its handler,
    which are functions of the caller; it is not a value of the model;
  \<^item> heap objects: a direct prototype and own data properties, both kept in the heap and
    both open to change. The prototype is \<open>Object.prototype\<close>, \<open>null\<close>, the prototype
    object of another class (one that inherits from \<open>Object.prototype\<close> and whose
    members are methods: it has no accessor and no read-only property, and no property
    \<open>__proto__\<close> of its own), or a value of the model that was made the prototype. The
    order of the own properties is not modelled. A heap object is
    extensible and its own properties are writable data properties: own accessors,
    read-only own properties and frozen or sealed objects are not part of the model, and
    the built-in prototype objects are not values of it;
  \<^item> thrown values (\<open>thrown\<close>): a primitive, an instance of a native error class
    (name and message), or a \<open>HyperProcError\<close>. A thrown object of another kind, on
    which \<open>HyperProcError.from\<close> may itself throw while it reads the message, is
    outside the model;
  \<^item> the world: the heap and what was printed on the console.
\<close>

type_synonym addr = nat

datatype prim = PUndefined | PNull | PBool bool | PNum string | PStr string | PSym string

datatype jsval = Prim prim | Fun nat | Arr "jsval list" | Ref addr | RevokedProxy bool

abbreviation Undefined :: jsval where
  "Undefined \<equiv> Prim PUndefined"

abbreviation Null :: jsval where
  "Null \<equiv> Prim PNull"

abbreviation Num :: "string \<Rightarrow> jsval" where
  "Num n \<equiv> Prim (PNum n)"

datatype proto = ObjectPrototype | NullPrototype | OtherPrototype string | ObjectAsPrototype jsval

record obj =
  obj_proto :: proto
  obj_props :: "string \<rightharpoonup> jsval"

datatype hperror =
  HyperProcError (err_message: string) (err_op: string) (err_id: "string option")
    (err_state: "jsval option") (err_cause: "thrown option")
and thrown = Primitive prim | NativeError string string | PipelineError hperror

abbreviation TypeError :: "string \<Rightarrow> thrown" where
  "TypeError msg \<equiv> NativeError ''TypeError'' msg"

record world =
  heap :: "addr \<Rightarrow> obj"
  console :: "thrown list"

text \<open>
  The result of awaiting a call: the value it is fulfilled with, the value it throws or
  rejects with, or nothing ever (an operation that hangs, hangs the pipeline).
\<close>

datatype outcome = Fulfilled jsval | Rejected thrown | Pending

section \<open>StateGuard: \<open>HyperProc.isState\<close>\<close>

text \<open>
  The built-ins \<open>isState\<close> calls. \<open>typeof\<close> answers on every value. \<open>Array.isArray\<close>
  throws on a revoked Proxy. \<open>Object.getPrototypeOf\<close> throws on \<open>undefined\<close>, on
  \<open>null\<close> and on a revoked Proxy, and answers with the prototype of the wrapper class on
  the other primitives.
\<close>

definition revoked_msg :: "string \<Rightarrow> string" where
  "revoked_msg what =
     ''Cannot perform '' @ [CHR 0x27] @ what @ [CHR 0x27] @ '' on a proxy that has been revoked''"

fun js_typeof :: "jsval \<Rightarrow> string" where
  "js_typeof (Prim PUndefined) = ''undefined''"
| "js_typeof (Prim PNull) = ''object''"
| "js_typeof (Prim (PBool b)) = ''boolean''"
| "js_typeof (Prim (PNum n)) = ''number''"
| "js_typeof (Prim (PStr s)) = ''string''"
| "js_typeof (Prim (PSym d)) = ''symbol''"
| "js_typeof (Fun f) = ''function''"
| "js_typeof (Arr xs) = ''object''"
| "js_typeof (Ref a) = ''object''"
| "js_typeof (RevokedProxy callable) = (if callable then ''function'' else ''object'')"

fun Array_isArray :: "jsval \<Rightarrow> thrown + bool" where
  "Array_isArray (Arr xs) = Inr True"
| "Array_isArray (RevokedProxy callable) = Inl (TypeError (revoked_msg ''IsArray''))"
| "Array_isArray v = Inr False"

fun Object_getPrototypeOf :: "world \<Rightarrow> jsval \<Rightarrow> thrown + proto" where
  "Object_getPrototypeOf w (Prim PUndefined) =
     Inl (TypeError ''Cannot convert undefined or null to object'')"
| "Object_getPrototypeOf w (Prim PNull) =
     Inl (TypeError ''Cannot convert undefined or null to object'')"
| "Object_getPrototypeOf w (Prim (PBool b)) = Inr (OtherPrototype ''Boolean'')"
| "Object_getPrototypeOf w (Prim (PNum n)) = Inr (OtherPrototype ''Number'')"
| "Object_getPrototypeOf w (Prim (PStr s)) = Inr (OtherPrototype ''String'')"
| "Object_getPrototypeOf w (Prim (PSym d)) = Inr (OtherPrototype ''Symbol'')"
| "Object_getPrototypeOf w (Fun f) = Inr (OtherPrototype ''Function'')"
| "Object_getPrototypeOf w (Arr xs) = Inr (OtherPrototype ''Array'')"
| "Object_getPrototypeOf w (Ref a) = Inr (obj_proto (heap w a))"
| "Object_getPrototypeOf w (RevokedProxy callable) = Inl (TypeError (revoked_msg ''getPrototypeOf''))"

text \<open>
  \<open>isState\<close> as written: the conjuncts of the guard in their order, the prototype read
  only under the guard, \<open>false\<close> outside it. The result is a sum: an exception of a
  built-in is the exception of \<open>isState\<close>. It reads the world and returns none.
\<close>

definition isState :: "world \<Rightarrow> jsval \<Rightarrow> thrown + bool" where
  "isState w v =
     (if v \<noteq> Null \<and> js_typeof v = ''object''
      then (case Array_isArray v of
              Inl x \<Rightarrow> Inl x
            | Inr is_array \<Rightarrow>
                if \<not> is_array
                then (case Object_getPrototypeOf w v of
                        Inl x \<Rightarrow> Inl x
                      | Inr p \<Rightarrow> Inr (p = ObjectPrototype \<or> p = NullPrototype))
                else Inr False)
      else Inr False)"

text \<open>
  The guard \<open>if (!this.constructor.isState(v)) throw new TypeError(msg)\<close> of \<open>run\<close>:
  the exception it raises, if any.
\<close>

definition require_state :: "world \<Rightarrow> jsval \<Rightarrow> string \<Rightarrow> thrown option" where
  "require_state w v msg =
     (case isState w v of
        Inl x \<Rightarrow> Some x
      | Inr b \<Rightarrow> if b then None else Some (TypeError msg))"

text \<open>
  What the guard comes to: a reference to an object whose prototype is
  \<open>Object.prototype\<close> or \<open>null\<close> now.
\<close>

fun is_ref :: "jsval \<Rightarrow> bool" where
  "is_ref (Ref a) = True"
| "is_ref v = False"

fun plain :: "world \<Rightarrow> jsval \<Rightarrow> bool" where
  "plain w (Ref a) = (obj_proto (heap w a) = ObjectPrototype \<or> obj_proto (heap w a) = NullPrototype)"
| "plain w v = False"



fun is_array :: "jsval \<Rightarrow> bool" where
  "is_array (Arr xs) = True"
| "is_array v = False"



section \<open>PipelineError: \<open>HyperProcError\<close>\<close>

datatype optag = APPLY_TO | TRANSFORM | AUGMENT | CHAIN | NOOP | OtherSymbol string

text \<open>\<open>String(sym)\<close> of a symbol is \<open>Symbol(description)\<close>.\<close>

fun description :: "optag \<Rightarrow> string" where
  "description APPLY_TO = ''APPLY_TO''"
| "description TRANSFORM = ''TRANSFORM''"
| "description AUGMENT = ''AUGMENT''"
| "description CHAIN = ''CHAIN''"
| "description NOOP = ''NOOP''"
| "description (OtherSymbol d) = d"

definition String_symbol :: "optag \<Rightarrow> string" where
  "String_symbol t = ''Symbol('' @ description t @ '')''"

fun String_prim :: "prim \<Rightarrow> string" where
  "String_prim PUndefined = ''undefined''"
| "String_prim PNull = ''null''"
| "String_prim (PBool b) = (if b then ''true'' else ''false'')"
| "String_prim (PNum n) = n"
| "String_prim (PStr s) = s"
| "String_prim (PSym d) = ''Symbol('' @ d @ '')''"

fun truthy_prim :: "prim \<Rightarrow> bool" where
  "truthy_prim PUndefined = False"
| "truthy_prim PNull = False"
| "truthy_prim (PBool b) = b"
| "truthy_prim (PNum n) = (n \<noteq> ''0'' \<and> n \<noteq> ''NaN'')"
| "truthy_prim (PStr s) = (s \<noteq> [])"
| "truthy_prim (PSym d) = True"

fun truthy :: "thrown \<Rightarrow> bool" where
  "truthy (Primitive p) = truthy_prim p"
| "truthy (NativeError n m) = True"
| "truthy (PipelineError e) = True"

text \<open>The argument \<open>{ op, id, state, cause }\<close> of the constructor; a missing field is
  \<open>None\<close>, \<open>Undefined\<close> or the primitive \<open>undefined\<close>.\<close>

record opts =
  opt_op :: "optag option"
  opt_id :: "string option"
  opt_state :: jsval
  opt_cause :: thrown

definition no_opts :: opts where
  "no_opts = \<lparr>opt_op = None, opt_id = None, opt_state = Undefined, opt_cause = Primitive PUndefined\<rparr>"

text \<open>
  The constructor: \<open>name\<close> is always \<open>HyperProcError\<close>; \<open>op\<close> is
  \<open>String(op ?? "UNDEFINED")\<close>; \<open>cause\<close> is linked when it is truthy; \<open>state\<close> is
  attached (not enumerable) when it is not \<open>undefined\<close>.
\<close>

definition HyperProcError_new :: "string \<Rightarrow> opts \<Rightarrow> hperror" where
  "HyperProcError_new msg os =
     HyperProcError msg
       (case opt_op os of None \<Rightarrow> ''UNDEFINED'' | Some t \<Rightarrow> String_symbol t)
       (opt_id os)
       (if opt_state os \<noteq> Undefined then Some (opt_state os) else None)
       (if truthy (opt_cause os) then Some (opt_cause os) else None)"

definition err_name :: "hperror \<Rightarrow> string" where
  "err_name e = ''HyperProcError''"

text \<open>\<open>err?.message ?? String(err)\<close>: a primitive has no \<open>message\<close>.\<close>

fun message_of :: "thrown \<Rightarrow> string" where
  "message_of (Primitive p) = String_prim p"
| "message_of (NativeError n m) = m"
| "message_of (PipelineError e) = err_message e"

definition HyperProcError_from :: "thrown \<Rightarrow> opts \<Rightarrow> hperror" where
  "HyperProcError_from err os =
     HyperProcError_new (message_of err)
       \<lparr>opt_op = opt_op os, opt_id = opt_id os, opt_state = opt_state os, opt_cause = err\<rparr>"

text \<open>
  The serialized view: an object is the ordered list of its own enumerable fields.
  \<open>cause.name\<close> and \<open>cause.message\<close> of a primitive cause are \<open>undefined\<close>.
\<close>

datatype json = JUndefined | JString string | JObject "(string \<times> json) list"

fun name_of :: "thrown \<Rightarrow> json" where
  "name_of (Primitive p) = JUndefined"
| "name_of (NativeError n m) = JString n"
| "name_of (PipelineError e) = JString (err_name e)"

fun message_json :: "thrown \<Rightarrow> json" where
  "message_json (Primitive p) = JUndefined"
| "message_json (NativeError n m) = JString m"
| "message_json (PipelineError e) = JString (err_message e)"

definition toJSON :: "hperror \<Rightarrow> json" where
  "toJSON e =
     JObject
      [(''name'', JString (err_name e)),
       (''message'', JString (err_message e)),
       (''op'', JString (err_op e)),
       (''id'', (case err_id e of None \<Rightarrow> JUndefined | Some i \<Rightarrow> JString i)),
       (''cause'', (case err_cause e of
                      None \<Rightarrow> JUndefined
                    | Some c \<Rightarrow>
                        if truthy c
                        then JObject [(''name'', name_of c), (''message'', message_json c)]
                        else JUndefined))]"

fun fields :: "json \<Rightarrow> (string \<times> json) list" where
  "fields (JObject fs) = fs"
| "fields j = []"

fun is_leaf :: "json \<Rightarrow> bool" where
  "is_leaf (JObject fs) = False"
| "is_leaf j = True"

section \<open>PipelineEngine: \<open>HyperProc\<close>\<close>

text \<open>
  A function of the caller gets its arguments and the world, and answers with the outcome
  of awaiting it and the world it leaves. The recovery handler gets
  \<open>(err, state, env)\<close>. A record \<open>{id, fn, op}\<close> holds a function or, for a chain, an
  engine; \<open>id\<close> is \<open>None\<close> where the record has none. An engine is an instance of
  \<open>HyperProc\<close> or \<open>HyperSubProc\<close> (they differ in the handler the constructor sets), or
  an instance of a subclass that overrides \<open>run\<close> with a function of its own, as the
  tests of the repository build one. A record holds a chained engine as it is when the
  parent runs; the engines chained into one another form a tree.
\<close>

type_synonym userfn = "jsval list \<Rightarrow> world \<Rightarrow> outcome \<times> world"

type_synonym handler = "hperror \<Rightarrow> jsval \<Rightarrow> jsval \<Rightarrow> world \<Rightarrow> outcome \<times> world"

datatype callee = Fn userfn | Proc hyperproc | ProcWithRun userfn
and oprec = OpRec (rec_id: "string option") (rec_fn: callee) (rec_op: optag)
and hyperproc = HyperProc (hp_env: jsval) (hp_ops: "oprec list") (hp_onError: handler)

text \<open>The default handler of the constructor: \<open>console.error(err); return state\<close>.\<close>

definition default_onError :: handler where
  "default_onError err state env w =
     (Fulfilled state, w\<lparr>console := console w @ [PipelineError err]\<rparr>)"

definition HyperProc_new :: "jsval \<Rightarrow> hyperproc" where
  "HyperProc_new env = HyperProc env [] default_onError"

text \<open>The handler of \<open>HyperSubProc\<close>: \<open>(err) => { throw err; }\<close>.\<close>

definition bubble_onError :: handler where
  "bubble_onError err state env w = (Rejected (PipelineError err), w)"

definition HyperSubProc_new :: "jsval \<Rightarrow> hyperproc" where
  "HyperSubProc_new env = HyperProc env [] bubble_onError"

subsection \<open>The builder methods\<close>

definition push :: "hyperproc \<Rightarrow> oprec \<Rightarrow> hyperproc" where
  "push hp r = HyperProc (hp_env hp) (hp_ops hp @ [r]) (hp_onError hp)"

definition applyTo :: "userfn \<Rightarrow> hyperproc \<Rightarrow> hyperproc" where
  "applyTo f hp = push hp (OpRec None (Fn f) APPLY_TO)"

definition transform :: "string \<Rightarrow> userfn \<Rightarrow> hyperproc \<Rightarrow> hyperproc" where
  "transform i f hp = push hp (OpRec (Some i) (Fn f) TRANSFORM)"

definition augment :: "string \<Rightarrow> userfn \<Rightarrow> hyperproc \<Rightarrow> hyperproc" where
  "augment i f hp = push hp (OpRec (Some i) (Fn f) AUGMENT)"

definition noop :: "userfn \<Rightarrow> hyperproc \<Rightarrow> hyperproc" where
  "noop f hp = push hp (OpRec None (Fn f) NOOP)"

definition onError :: "handler \<Rightarrow> hyperproc \<Rightarrow> hyperproc" where
  "onError h hp = HyperProc (hp_env hp) (hp_ops hp) h"

text \<open>The argument of \<open>chain\<close> is an instance of \<open>HyperProc\<close> or some other value.\<close>

datatype chain_arg = Instance hyperproc | InstanceWithRun userfn | NoInstance jsval

definition chain :: "chain_arg \<Rightarrow> hyperproc \<Rightarrow> thrown + hyperproc" where
  "chain arg hp =
     (case arg of
        NoInstance v \<Rightarrow> Inl (TypeError ''Can only chain to an instance of HyperProc'')
      | Instance p \<Rightarrow> Inr (push hp (OpRec None (Proc p) CHAIN))
      | InstanceWithRun g \<Rightarrow> Inr (push hp (OpRec None (ProcWithRun g) CHAIN)))"

subsection \<open>Properties of the state object\<close>

text \<open>
  The state the loop holds is a reference to a heap object: the input and every
  replacement pass \<open>isState\<close>. \<open>Object.prototype.hasOwnProperty.call(state, id)\<close> looks
  the key up among the own properties, and \<open>state[id]\<close>, read under that guard,
  is the own property. On another value, which the loop never holds, the two answer
  \<open>false\<close> and \<open>undefined\<close>. A property key is a string; the key of a missing \<open>id\<close>
  is \<open>undefined\<close>.
\<close>

definition key_of :: "string option \<Rightarrow> string" where
  "key_of i = (case i of None \<Rightarrow> ''undefined'' | Some k \<Rightarrow> k)"

fun hasOwnProperty :: "world \<Rightarrow> jsval \<Rightarrow> string \<Rightarrow> bool" where
  "hasOwnProperty w (Ref a) k = (obj_props (heap w a) k \<noteq> None)"
| "hasOwnProperty w v k = False"

fun get_prop :: "world \<Rightarrow> jsval \<Rightarrow> string \<Rightarrow> jsval" where
  "get_prop w (Ref a) k = (case obj_props (heap w a) k of None \<Rightarrow> Undefined | Some v \<Rightarrow> v)"
| "get_prop w v k = Undefined"

text \<open>
  The write of an own data property (it creates the property or replaces its value),
  and the change of the prototype.
\<close>

fun set_prop :: "world \<Rightarrow> jsval \<Rightarrow> string \<Rightarrow> jsval \<Rightarrow> world" where
  "set_prop w (Ref a) k v =
     w\<lparr>heap := (heap w)(a := (heap w a)\<lparr>obj_props := (obj_props (heap w a))(k \<mapsto> v)\<rparr>)\<rparr>"
| "set_prop w u k v = w"

definition set_proto :: "world \<Rightarrow> addr \<Rightarrow> proto \<Rightarrow> world" where
  "set_proto w a p = w\<lparr>heap := (heap w)(a := (heap w a)\<lparr>obj_proto := p\<rparr>)\<rparr>"

text \<open>
  The assignment \<open>state[id] = v\<close> is a write of the own property when the object has the
  key. When it has not, the key is looked up along the prototype chain, and what is found
  decides: nothing or a data property, and the property is created on the state; the
  accessor \<open>__proto__\<close> of \<open>Object.prototype\<close>, and its setter is called; a read-only
  property (\<open>name\<close> and \<open>length\<close> of a function) or an accessor that throws
  (\<open>arguments\<close> and \<open>caller\<close> of \<open>Function.prototype\<close>), and the assignment throws, as
  the code of a class is strict; a revoked Proxy, and it throws.
  The walk along the chain ends on every chain JavaScript builds (the setter refuses a
  cycle); in a heap with a cyclic chain it does not return, which is the value \<open>None\<close>.
  The messages of the built-ins are those of Node.js.
\<close>

datatype lookup = Absent | DataProperty | ProtoAccessor | ReadOnly | ThrowingAccessor | RevokedOnChain

definition builtin_lookup :: "string \<Rightarrow> lookup" where
  "builtin_lookup k = (if k = ''__proto__'' then ProtoAccessor else Absent)"

definition function_lookup :: "string \<Rightarrow> lookup" where
  "function_lookup k =
     (if k = ''name'' \<or> k = ''length'' then ReadOnly
      else if k = ''arguments'' \<or> k = ''caller'' then ThrowingAccessor
      else builtin_lookup k)"

partial_function (option) inherited :: "world \<Rightarrow> proto \<Rightarrow> string \<Rightarrow> lookup option" where
  "inherited w p k =
     (case p of
        ObjectPrototype \<Rightarrow> Some (builtin_lookup k)
      | NullPrototype \<Rightarrow> Some Absent
      | OtherPrototype n \<Rightarrow> Some (builtin_lookup k)
      | ObjectAsPrototype v \<Rightarrow>
          (case v of
             Ref b \<Rightarrow>
               if obj_props (heap w b) k \<noteq> None then Some DataProperty
               else inherited w (obj_proto (heap w b)) k
           | Arr xs \<Rightarrow> Some (builtin_lookup k)
           | Fun f \<Rightarrow> Some (function_lookup k)
           | RevokedProxy callable \<Rightarrow> Some RevokedOnChain
           | Prim q \<Rightarrow> Some Absent))"

text \<open>
  Is the object \<open>a\<close> on the prototype chain that starts at the value \<open>v\<close>? The walk of
  the setter stops at \<open>null\<close>, at a built-in prototype and at a Proxy.
\<close>

partial_function (option) on_chain :: "world \<Rightarrow> addr \<Rightarrow> jsval \<Rightarrow> bool option" where
  "on_chain w a v =
     (case v of
        Ref b \<Rightarrow>
          if b = a then Some True
          else (case obj_proto (heap w b) of
                  ObjectAsPrototype u \<Rightarrow> on_chain w a u
                | _ \<Rightarrow> Some False)
      | _ \<Rightarrow> Some False)"

text \<open>
  The setter of \<open>__proto__\<close> on the object \<open>a\<close>: a primitive other than \<open>null\<close> is
  ignored; \<open>null\<close> or an object becomes the prototype, unless the object has \<open>a\<close> on its
  chain, which throws.
\<close>

definition proto_setter :: "world \<Rightarrow> addr \<Rightarrow> jsval \<Rightarrow> (thrown + world) option" where
  "proto_setter w a v =
     (case v of
        Prim q \<Rightarrow> if q = PNull then Some (Inr (set_proto w a NullPrototype)) else Some (Inr w)
      | _ \<Rightarrow>
          if obj_proto (heap w a) = ObjectAsPrototype v then Some (Inr w)
          else (case on_chain w a v of
                  None \<Rightarrow> None
                | Some cyclic \<Rightarrow>
                    if cyclic then Some (Inl (TypeError ''Cyclic __proto__ value''))
                    else Some (Inr (set_proto w a (ObjectAsPrototype v)))))"

definition readonly_msg :: "string \<Rightarrow> string" where
  "readonly_msg k =
     ''Cannot assign to read only property '' @ [CHR 0x27] @ k @ [CHR 0x27] @
     '' of object '' @ [CHR 0x27] @ ''#<Object>'' @ [CHR 0x27]"

definition poison_msg :: string where
  "poison_msg =
     [CHR 0x27] @ ''caller'' @ [CHR 0x27] @ '', '' @ [CHR 0x27] @ ''callee'' @ [CHR 0x27] @ '', and '' @
     [CHR 0x27] @ ''arguments'' @ [CHR 0x27] @
     '' properties may not be accessed on strict mode functions or the arguments objects for calls to them''"

definition assign :: "world \<Rightarrow> jsval \<Rightarrow> string \<Rightarrow> jsval \<Rightarrow> (thrown + world) option" where
  "assign w state k v =
     (case state of
        Ref a \<Rightarrow>
          if obj_props (heap w a) k \<noteq> None then Some (Inr (set_prop w state k v))
          else (case inherited w (obj_proto (heap w a)) k of
                  None \<Rightarrow> None
                | Some Absent \<Rightarrow> Some (Inr (set_prop w state k v))
                | Some DataProperty \<Rightarrow> Some (Inr (set_prop w state k v))
                | Some ProtoAccessor \<Rightarrow> proto_setter w a v
                | Some ReadOnly \<Rightarrow> Some (Inl (TypeError (readonly_msg k)))
                | Some ThrowingAccessor \<Rightarrow> Some (Inl (TypeError poison_msg))
                | Some RevokedOnChain \<Rightarrow> Some (Inl (TypeError (revoked_msg ''set''))))
      | _ \<Rightarrow> Some (Inr w))"

subsection \<open>\<open>run\<close>\<close>

text \<open>
  The events of a run, in order, kept beside the world: a call of a record's function
  (with the record's tag and id and the arguments), a call of the engine's recovery
  handler (with its arguments), and the run of a chained engine (with its own events).
  The functions of the caller cannot see them.
\<close>

datatype event =
    Invoked optag "string option" "jsval list"
  | Recovery hperror jsval jsval
  | Chained "event list"

text \<open>
  One pass of the loop body ends with the next value of \<open>state\<close>, with an exception, or
  never. The loop ends with the last state, with the exception of a record together with
  \<open>spec\<close> and \<open>state\<close> as the \<open>catch\<close> block finds them, or never.
\<close>

datatype step = Next jsval | Raise thrown | Stall

datatype loop = Done jsval | Failed thrown "string option" optag jsval | Hung

definition quoted :: "string \<Rightarrow> string" where
  "quoted s = [CHR 0x22] @ s @ [CHR 0x22]"

text \<open>Awaiting \<open>fn(args)\<close> where \<open>fn\<close> may not be a function.\<close>

definition call :: "optag \<Rightarrow> string option \<Rightarrow> callee \<Rightarrow> jsval list \<Rightarrow> world \<Rightarrow> outcome \<times> world \<times> event list" where
  "call t i c args w =
     (case c of
        Fn f \<Rightarrow> (case f args w of (r, w') \<Rightarrow> (r, w', [Invoked t i args]))
      | _ \<Rightarrow> (Rejected (TypeError ''fn is not a function''), w, []))"

text \<open>
  The \<open>catch\<close> block: an error that is no \<open>HyperProcError\<close> is wrapped by
  \<open>HyperProcError.from(err, {state, ...spec})\<close>; the handler is called once; what it
  returns replaces the state unless it is \<open>undefined\<close>, and the state is checked.
\<close>

definition normalize_error :: "thrown \<Rightarrow> string option \<Rightarrow> optag \<Rightarrow> jsval \<Rightarrow> hperror" where
  "normalize_error err i t state =
     (case err of
        PipelineError e \<Rightarrow> e
      | _ \<Rightarrow> HyperProcError_from err
               \<lparr>opt_op = Some t, opt_id = i, opt_state = state, opt_cause = Primitive PUndefined\<rparr>)"

text \<open>
  The statement \<open>state[id] = await fn(...)\<close> after the call is fulfilled with \<open>v\<close>: the
  assignment, which leaves \<open>state\<close> the same reference.
\<close>

definition store :: "jsval \<Rightarrow> string \<Rightarrow> jsval \<Rightarrow> world \<Rightarrow> event list \<Rightarrow> step \<times> world \<times> event list" where
  "store state k v w tr =
     (case assign w state k v of
        None \<Rightarrow> (Stall, w, tr)
      | Some (Inl x) \<Rightarrow> (Raise x, w, tr)
      | Some (Inr w') \<Rightarrow> (Next state, w', tr))"

definition recover :: "handler \<Rightarrow> jsval \<Rightarrow> hperror \<Rightarrow> jsval \<Rightarrow> world \<Rightarrow> outcome \<times> world \<times> event list" where
  "recover h env e state w =
     (case h e state env w of
        (Rejected x, w') \<Rightarrow> (Rejected x, w', [Recovery e state env])
      | (Pending, w') \<Rightarrow> (Pending, w', [Recovery e state env])
      | (Fulfilled result, w') \<Rightarrow>
          (let state' = (if result = Undefined then state else result) in
           case require_state w' state' ''HyperProc.onError must return UNDEFINED or an OBJECT as state'' of
             Some x \<Rightarrow> (Rejected x, w', [Recovery e state env])
           | None \<Rightarrow> (Fulfilled state', w', [Recovery e state env])))"

fun run :: "hyperproc \<Rightarrow> jsval \<Rightarrow> world \<Rightarrow> outcome \<times> world \<times> event list"
and run_ops :: "jsval \<Rightarrow> oprec list \<Rightarrow> jsval \<Rightarrow> world \<Rightarrow> loop \<times> world \<times> event list"
and exec :: "jsval \<Rightarrow> oprec \<Rightarrow> jsval \<Rightarrow> world \<Rightarrow> step \<times> world \<times> event list"
where
  "run (HyperProc env ops h) state w =
     (case require_state w state ''HyperProc.run expects an OBJECT as state'' of
        Some x \<Rightarrow> (Rejected x, w, [])
      | None \<Rightarrow>
          (case run_ops env ops state w of
             (Done s, w', tr) \<Rightarrow> (Fulfilled s, w', tr)
           | (Hung, w', tr) \<Rightarrow> (Pending, w', tr)
           | (Failed err i t s, w', tr) \<Rightarrow>
               (case recover h env (normalize_error err i t s) s w' of
                  (r, w'', tr') \<Rightarrow> (r, w'', tr @ tr'))))"
| "run_ops env [] state w = (Done state, w, [])"
| "run_ops env (r # rs) state w =
     (case exec env r state w of
        (Next s, w', tr) \<Rightarrow>
          (case run_ops env rs s w' of (res, w'', tr') \<Rightarrow> (res, w'', tr @ tr'))
      | (Raise x, w', tr) \<Rightarrow> (Failed x (rec_id r) (rec_op r) state, w', tr)
      | (Stall, w', tr) \<Rightarrow> (Hung, w', tr))"
| "exec env (OpRec i c APPLY_TO) state w =
     (case call APPLY_TO i c [state, env] w of
        (Rejected x, w', tr) \<Rightarrow> (Raise x, w', tr)
      | (Pending, w', tr) \<Rightarrow> (Stall, w', tr)
      | (Fulfilled nextState, w', tr) \<Rightarrow>
          (case require_state w' nextState ''HyperProc.applyTo must return an OBJECT as state'' of
             Some x \<Rightarrow> (Raise x, w', tr)
           | None \<Rightarrow> (Next nextState, w', tr)))"
| "exec env (OpRec i c TRANSFORM) state w =
     (if \<not> hasOwnProperty w state (key_of i)
      then (Raise (PipelineError (HyperProcError_new
                (''HyperProc.transform missing property '' @ quoted (key_of i))
                (no_opts\<lparr>opt_id := i, opt_op := Some TRANSFORM\<rparr>))), w, [])
      else (case call TRANSFORM i c [get_prop w state (key_of i), state, env] w of
              (Rejected x, w', tr) \<Rightarrow> (Raise x, w', tr)
            | (Pending, w', tr) \<Rightarrow> (Stall, w', tr)
            | (Fulfilled v, w', tr) \<Rightarrow> store state (key_of i) v w' tr))"
| "exec env (OpRec i c AUGMENT) state w =
     (if hasOwnProperty w state (key_of i)
      then (Raise (PipelineError (HyperProcError_new
                (''HyperProc.augment property '' @ quoted (key_of i) @ '' already exists'')
                (no_opts\<lparr>opt_id := i, opt_op := Some AUGMENT\<rparr>))), w, [])
      else (case call AUGMENT i c [state, env] w of
              (Rejected x, w', tr) \<Rightarrow> (Raise x, w', tr)
            | (Pending, w', tr) \<Rightarrow> (Stall, w', tr)
            | (Fulfilled v, w', tr) \<Rightarrow> store state (key_of i) v w' tr))"
| "exec env (OpRec i (Proc p) CHAIN) state w =
     (case run p state w of
        (Rejected x, w', tr) \<Rightarrow> (Raise x, w', [Chained tr])
      | (Pending, w', tr) \<Rightarrow> (Stall, w', [Chained tr])
      | (Fulfilled nextState, w', tr) \<Rightarrow>
          (case require_state w' nextState ''HyperProc.chain must return an OBJECT as state'' of
             Some x \<Rightarrow> (Raise x, w', [Chained tr])
           | None \<Rightarrow> (Next nextState, w', [Chained tr])))"
| "exec env (OpRec i (ProcWithRun g) CHAIN) state w =
     (case g [state] w of
        (Rejected x, w') \<Rightarrow> (Raise x, w', [Invoked CHAIN i [state]])
      | (Pending, w') \<Rightarrow> (Stall, w', [Invoked CHAIN i [state]])
      | (Fulfilled nextState, w') \<Rightarrow>
          (case require_state w' nextState ''HyperProc.chain must return an OBJECT as state'' of
             Some x \<Rightarrow> (Raise x, w', [Invoked CHAIN i [state]])
           | None \<Rightarrow> (Next nextState, w', [Invoked CHAIN i [state]])))"
| "exec env (OpRec i (Fn f) CHAIN) state w =
     (Raise (TypeError ''fn.run is not a function''), w, [])"
| "exec env (OpRec i c NOOP) state w =
     (case call NOOP i c [state, env] w of
        (Rejected x, w', tr) \<Rightarrow> (Raise x, w', tr)
      | (Pending, w', tr) \<Rightarrow> (Stall, w', tr)
      | (Fulfilled v, w', tr) \<Rightarrow> (Next state, w', tr))"
| "exec env (OpRec i c (OtherSymbol d)) state w =
     (Raise (PipelineError (HyperProcError_new
               (''Unknown Operation: '' @ String_symbol (OtherSymbol d))
               (no_opts\<lparr>opt_state := state, opt_id := i, opt_op := Some (OtherSymbol d)\<rparr>))), w, [])"

subsection \<open>The events of a run\<close>

text \<open>
  The calls of the recovery handler of the engine that runs: the \<open>Recovery\<close> events
  at the top of its events (those of a chained engine are inside \<open>Chained\<close>).
\<close>

fun is_recovery :: "event \<Rightarrow> bool" where
  "is_recovery (Recovery e s env) = True"
| "is_recovery ev = False"

definition recoveries :: "event list \<Rightarrow> event list" where
  "recoveries tr = filter is_recovery tr"

text \<open>
  The environment a call was given: the last argument of a record's function (the run
  of an instance that overrides \<open>run\<close> gets the state only), the third argument of the
  handler. \<open>own_env env tr\<close>: every call of \<open>tr\<close> that got an environment got
  \<open>env\<close>.
\<close>

fun event_env :: "event \<Rightarrow> jsval option" where
  "event_env (Invoked t i args) = (if t = CHAIN then None else Some (last args))"
| "event_env (Recovery e st env) = Some env"
| "event_env (Chained tr) = None"

definition own_env :: "jsval \<Rightarrow> event list \<Rightarrow> bool" where
  "own_env env tr = (\<forall>ev \<in> set tr. event_env ev = None \<or> event_env ev = Some env)"

text \<open>The messages of the two guards inside the loop.\<close>

definition applyTo_msg :: string where
  "applyTo_msg = ''HyperProc.applyTo must return an OBJECT as state''"

definition chain_msg :: string where
  "chain_msg = ''HyperProc.chain must return an OBJECT as state''"

section \<open>The pipelines of the tests\<close>

text \<open>
  An empty world, in which every object is an empty plain object; \<open>() => v\<close> and
  \<open>() => { throw x }\<close>, which touch nothing; a handler that returns a fixed value;
  \<open>new Error("boom")\<close>; three plain objects; and the queue
  \<open>augment("ok", () => 1)\<close>, \<open>applyTo(() => { throw new Error("boom") })\<close>,
  \<open>augment("after", () => 2)\<close> of the test of the default policy.
\<close>

definition empty_object :: obj where
  "empty_object = \<lparr>obj_proto = ObjectPrototype, obj_props = Map.empty\<rparr>"

definition empty_world :: world where
  "empty_world = \<lparr>heap = (\<lambda>a. empty_object), console = []\<rparr>"

definition const_fn :: "jsval \<Rightarrow> userfn" where
  "const_fn v args w = (Fulfilled v, w)"

definition throw_fn :: "thrown \<Rightarrow> userfn" where
  "throw_fn x args w = (Rejected x, w)"

definition const_handler :: "jsval \<Rightarrow> handler" where
  "const_handler v err state env w = (Fulfilled v, w)"

definition boom :: thrown where
  "boom = NativeError ''Error'' ''boom''"

definition obj0 :: jsval where
  "obj0 = Ref 0"

definition test_ops :: "oprec list" where
  "test_ops = [OpRec (Some ''ok'') (Fn (const_fn (Num ''1''))) AUGMENT,
               OpRec None (Fn (throw_fn boom)) APPLY_TO,
               OpRec (Some ''after'') (Fn (const_fn (Num ''2''))) AUGMENT]"

definition obj1 :: jsval where
  "obj1 = Ref 1"

definition obj2 :: jsval where
  "obj2 = Ref 2"

text \<open>
  The world in which the object \<open>0\<close> has the one own property \<open>k: v\<close>; a child of the
  bubbling variant, as in the test of the propagation; \<open>(state, env) => env\<close> and a child
  that stores the environment it is given; queues without \<open>applyTo\<close> and \<open>chain\<close>; an
  \<open>applyTo\<close> that returns \<open>123\<close>.
\<close>

definition world_with :: "string \<Rightarrow> jsval \<Rightarrow> world" where
  "world_with k v = set_prop empty_world obj0 k v"

definition bubbling_child :: hyperproc where
  "bubbling_child = applyTo (throw_fn boom) (augment ''x'' (const_fn (Num ''1'')) (HyperSubProc_new obj1))"





definition misbehaving :: hyperproc where
  "misbehaving = applyTo (const_fn (Num ''123'')) (HyperProc_new obj1)"

text \<open>
  The pipelines that meet \<open>__proto__\<close>: \<open>augment("__proto__", () => [])\<close> followed by
  an \<open>applyTo\<close> that throws; and \<open>(value, state) => { delete state.__proto__; return [] }\<close>
  for a \<open>transform\<close> on an object that has \<open>__proto__\<close> as an own property, as
  \<open>JSON.parse\<close> builds one.
\<close>

definition proto_ops :: "oprec list" where
  "proto_ops = [OpRec (Some ''__proto__'') (Fn (const_fn (Arr []))) AUGMENT,
                OpRec None (Fn (throw_fn boom)) APPLY_TO]"



section \<open>Facts about the state guard\<close>

lemma isState_cases:
  "isState w v =
     (if v = RevokedProxy False then Inl (TypeError (revoked_msg ''IsArray'')) else Inr (plain w v))"
proof (cases v)
  case (Prim p)
  then show ?thesis by (cases p) (simp_all add: isState_def)
qed (simp_all add: isState_def)

lemma isState_True: "(isState w v = Inr True) = plain w v"
  by (simp add: isState_cases)

lemma plain_is_ref: "plain w v \<Longrightarrow> is_ref v"
  by (cases v) simp_all

lemma isState_ref: "is_ref v \<Longrightarrow> isState w v = Inr (plain w v)"
  by (cases v) (simp_all add: isState_cases)

lemma is_ref_not_undefined: "is_ref s \<Longrightarrow> s \<noteq> Undefined"
  by auto

lemma require_state_cases:
  "require_state w v msg =
     (if v = RevokedProxy False then Some (TypeError (revoked_msg ''IsArray''))
      else if plain w v then None else Some (TypeError msg))"
  by (simp add: require_state_def isState_cases)

lemma require_state_ref:
  "is_ref v \<Longrightarrow> require_state w v msg = (if plain w v then None else Some (TypeError msg))"
  by (cases v) (simp_all add: require_state_cases)

lemma require_state_None: "(require_state w v msg = None) = plain w v"
  by (simp add: require_state_cases)

lemma plain_console [simp]: "plain (w\<lparr>console := c\<rparr>) v = plain w v"
  by (cases v) simp_all

section \<open>Facts about the loop\<close>

lemma run_ops_append:
  "run_ops env (xs @ ys) s w =
     (case run_ops env xs s w of
        (Done s', w', tr) \<Rightarrow> (case run_ops env ys s' w' of (r, w'', tr') \<Rightarrow> (r, w'', tr @ tr'))
      | (Failed x i t s', w', tr) \<Rightarrow> (Failed x i t s', w', tr)
      | (Hung, w', tr) \<Rightarrow> (Hung, w', tr))"
proof (induction xs arbitrary: s w)
  case Nil
  then show ?case by (simp split: prod.splits)
next
  case (Cons r rs)
  show ?case
  proof (cases "exec env r s w")
    case (fields st w1 tr1)
    then show ?thesis
      by (cases st) (simp_all add: Cons.IH split: prod.splits loop.splits)
  qed
qed

lemma run_ops_failed_decomp:
  assumes "run_ops env ops s w = (Failed x i t st, w1, tr)"
  shows "\<exists>pre r post w0 tr0 tr1. ops = pre @ r # post \<and> i = rec_id r \<and> t = rec_op r
           \<and> run_ops env pre s w = (Done st, w0, tr0)
           \<and> exec env r st w0 = (Raise x, w1, tr1) \<and> tr = tr0 @ tr1"
  using assms
proof (induction ops arbitrary: s w tr)
  case Nil
  then show ?case by simp
next
  case (Cons r rs)
  obtain res w' tr' where ex: "exec env r s w = (res, w', tr')"
    by (cases "exec env r s w") auto
  show ?case
  proof (cases res)
    case (Next s')
    obtain l w'' tr'' where rest: "run_ops env rs s' w' = (l, w'', tr'')"
      by (cases "run_ops env rs s' w'") auto
    with Cons.prems ex Next have l: "l = Failed x i t st" "w'' = w1" "tr = tr' @ tr''"
      by auto
    from Cons.IH [OF rest [unfolded l(1) l(2)]]
    obtain pre q post w0 tr0 tr1 where d: "rs = pre @ q # post" "i = rec_id q" "t = rec_op q"
      "run_ops env pre s' w' = (Done st, w0, tr0)" "exec env q st w0 = (Raise x, w1, tr1)" "tr'' = tr0 @ tr1"
      by blast
    have "run_ops env (r # pre) s w = (Done st, w0, tr' @ tr0)"
      using ex Next d(4) by simp
    with d l show ?thesis
      by (intro exI [of _ "r # pre"] exI [of _ q] exI [of _ post] exI [of _ w0] exI [of _ "tr' @ tr0"] exI [of _ tr1]) simp
  next
    case (Raise y)
    with Cons.prems ex have "y = x" "i = rec_id r" "t = rec_op r" "st = s" "w' = w1" "tr = tr'"
      by auto
    with ex Raise show ?thesis
      by (intro exI [of _ "[]"] exI [of _ r] exI [of _ rs] exI [of _ w] exI [of _ "[]"] exI [of _ tr']) simp
  next
    case Stall
    with Cons.prems ex show ?thesis by simp
  qed
qed

lemma call_cases:
  "call t i c args w = (r, w', tr) \<Longrightarrow>
     (\<exists>f. c = Fn f \<and> f args w = (r, w') \<and> tr = [Invoked t i args])
     \<or> ((\<forall>f. c \<noteq> Fn f) \<and> r = Rejected (TypeError ''fn is not a function'') \<and> w' = w \<and> tr = [])"
  by (cases c) (auto simp: call_def split: prod.splits)

lemma recoveries_call: "call t i c args w = (r, w', tr) \<Longrightarrow> recoveries tr = []"
  by (drule call_cases) (auto simp: recoveries_def)

lemma store_cases:
  "store state k v w tr = (res, w', tr') \<Longrightarrow>
     tr' = tr \<and> (res = Next state \<or> res = Stall \<or> (\<exists>x. res = Raise x))"
  by (auto simp: store_def split: option.splits sum.splits)

lemma exec_ref:
  assumes "is_ref s" and "exec env r s w = (Next s', w', tr)"
  shows "is_ref s'"
proof (cases r)
  case (OpRec i c t)
  show ?thesis
  proof (cases t)
    case CHAIN
    with OpRec assms show ?thesis
      by (cases c) (auto simp: require_state_None dest: plain_is_ref split: prod.splits outcome.splits option.splits)
  next
    case APPLY_TO
    with OpRec assms show ?thesis
      by (auto simp: require_state_None dest: plain_is_ref split: prod.splits outcome.splits option.splits)
  qed (use OpRec assms in \<open>auto dest!: store_cases split: prod.splits outcome.splits if_splits\<close>)
qed

lemma exec_no_recovery:
  assumes "exec env r s w = (res, w', tr)"
  shows "recoveries tr = []"
proof (cases r)
  case (OpRec i c t)
  show ?thesis
  proof (cases t)
    case CHAIN
    with OpRec assms show ?thesis
      by (cases c) (auto simp: recoveries_def split: prod.splits outcome.splits option.splits)
  qed (use OpRec assms in \<open>auto simp: recoveries_def dest!: recoveries_call store_cases split: prod.splits outcome.splits option.splits if_splits\<close>)
qed

lemma run_ops_ref:
  assumes "is_ref s"
  shows "(run_ops env ops s w = (Done s', w', tr) \<longrightarrow> is_ref s')
       \<and> (run_ops env ops s w = (Failed x i t s', w', tr) \<longrightarrow> is_ref s')"
  using assms
proof (induction ops arbitrary: s w tr)
  case Nil
  then show ?case by auto
next
  case (Cons r rs)
  obtain res w1 tr1 where ex: "exec env r s w = (res, w1, tr1)"
    by (cases "exec env r s w") auto
  show ?case
  proof (cases res)
    case (Next s1)
    with ex Cons.prems have p1: "is_ref s1" by (auto dest: exec_ref)
    obtain l w2 tr2 where rest: "run_ops env rs s1 w1 = (l, w2, tr2)"
      by (cases "run_ops env rs s1 w1") auto
    from Cons.IH [OF p1, of w1 tr2] rest ex Next show ?thesis by auto
  qed (use ex Cons.prems in auto)
qed

lemma run_ops_no_recovery:
  "run_ops env ops s w = (l, w', tr) \<Longrightarrow> recoveries tr = []"
proof (induction ops arbitrary: s w tr l w')
  case Nil
  then show ?case by (auto simp: recoveries_def)
next
  case (Cons r rs)
  obtain res w1 tr1 where ex: "exec env r s w = (res, w1, tr1)"
    by (cases "exec env r s w") auto
  from exec_no_recovery [OF ex] have r1: "recoveries tr1 = []" .
  show ?case
  proof (cases res)
    case (Next s1)
    obtain l2 w2 tr2 where rest: "run_ops env rs s1 w1 = (l2, w2, tr2)"
      by (cases "run_ops env rs s1 w1") auto
    from Cons.IH [OF rest] r1 rest ex Next Cons.prems show ?thesis
      by (auto simp: recoveries_def)
  qed (use ex r1 Cons.prems in auto)
qed

lemma run_invalid:
  "isState w s = Inr False \<Longrightarrow>
   run hp s w = (Rejected (TypeError ''HyperProc.run expects an OBJECT as state''), w, [])"
  by (cases hp) (simp add: require_state_def)

lemma run_guard_throws:
  "isState w s = Inl x \<Longrightarrow> run hp s w = (Rejected x, w, [])"
  by (cases hp) (simp add: require_state_def)



lemma run_failed:
  "plain w s \<Longrightarrow> run_ops env ops s w = (Failed x i t st, w1, tr) \<Longrightarrow>
   run (HyperProc env ops h) s w =
     (case recover h env (normalize_error x i t st) st w1 of (r, w2, tr') \<Rightarrow> (r, w2, tr @ tr'))"
  by (simp add: require_state_None [THEN iffD2])




lemma normalize_error_eq:
  "normalize_error x i t st =
     (case x of
        PipelineError e \<Rightarrow> e
      | _ \<Rightarrow> HyperProcError (message_of x) (String_symbol t) i
               (if st \<noteq> Undefined then Some st else None) (if truthy x then Some x else None))"
  by (cases x) (simp_all add: normalize_error_def HyperProcError_from_def HyperProcError_new_def)

lemma normalize_error_pipeline: "normalize_error (PipelineError e) i t st = e"
  by (simp add: normalize_error_def)

lemma message_normalize_error: "err_message (normalize_error x i t st) = message_of x"
  by (cases x) (simp_all add: normalize_error_eq)

section \<open>Facts about assignment\<close>

lemma inherited_ObjectPrototype: "inherited w ObjectPrototype k = Some (builtin_lookup k)"
  by (subst inherited.simps) simp

lemma inherited_NullPrototype: "inherited w NullPrototype k = Some Absent"
  by (subst inherited.simps) simp

lemma inherited_OtherPrototype: "inherited w (OtherPrototype n) k = Some (builtin_lookup k)"
  by (subst inherited.simps) simp

lemma inherited_Arr: "inherited w (ObjectAsPrototype (Arr xs)) k = Some (builtin_lookup k)"
  by (subst inherited.simps) simp

lemma on_chain_Arr: "on_chain w a (Arr xs) = Some False"
  by (subst on_chain.simps) simp

lemmas walk_simps = inherited_ObjectPrototype inherited_NullPrototype inherited_OtherPrototype
  inherited_Arr on_chain_Arr





section \<open>A pipeline that fails at its second step\<close>

lemma test_loop:
  "run_ops env test_ops obj0 empty_world =
     (Failed boom None APPLY_TO obj0, world_with ''ok'' (Num ''1''),
      [Invoked AUGMENT (Some ''ok'') [obj0, env], Invoked APPLY_TO None [obj0, env]])"
  by (simp add: test_ops_def obj0_def empty_world_def empty_object_def world_with_def call_def
      const_fn_def throw_fn_def key_of_def store_def assign_def walk_simps builtin_lookup_def)

lemma plain_obj0_with: "plain (world_with k v) obj0"
  by (simp add: world_with_def obj0_def empty_world_def empty_object_def)

lemma plain_obj0_empty: "plain empty_world obj0"
  by (simp add: obj0_def empty_world_def empty_object_def)

section \<open>Facts about the state variable\<close>






section \<open>Facts about the events\<close>

lemma own_env_append [simp]: "own_env env (xs @ ys) = (own_env env xs \<and> own_env env ys)"
  by (auto simp: own_env_def)

lemma own_env_Nil [simp]: "own_env env []"
  by (simp add: own_env_def)







section \<open>The state predicate\<close>




section \<open>The serialized view of a pipeline error\<close>

text \<open>
  Claim C8. For every pipeline error the constructor builds, \<open>toJSON()\<close> returns an
  object with exactly the fields \<open>name\<close>, \<open>message\<close>, \<open>op\<close>, \<open>id\<close> and \<open>cause\<close>, in
  this order: \<open>name\<close> is \<open>HyperProcError\<close>, \<open>message\<close> the message given, \<open>op\<close> the
  string \<open>UNDEFINED\<close> when no op was supplied (and the string of the symbol otherwise),
  \<open>id\<close> the id given. A cause that is present (truthy) is reduced to exactly
  \<open>{ name, message }\<close>, both leaves, with no trace and no further chaining; an absent one
  is \<open>undefined\<close>. The attached state never appears: the view has no such field and
  does not depend on the state given.
\<close>

theorem toJSON_contract:
  "map fst (fields (toJSON (HyperProcError_new msg os))) =
     [''name'', ''message'', ''op'', ''id'', ''cause'']
   \<and> map_of (fields (toJSON (HyperProcError_new msg os))) ''name'' = Some (JString ''HyperProcError'')
   \<and> map_of (fields (toJSON (HyperProcError_new msg os))) ''message'' = Some (JString msg)
   \<and> map_of (fields (toJSON (HyperProcError_new msg (os\<lparr>opt_op := None\<rparr>)))) ''op'' =
       Some (JString ''UNDEFINED'')
   \<and> map_of (fields (toJSON (HyperProcError_new msg (os\<lparr>opt_op := Some t\<rparr>)))) ''op'' =
       Some (JString (String_symbol t))
   \<and> map_of (fields (toJSON (HyperProcError_new msg os))) ''id'' =
       Some (case opt_id os of None \<Rightarrow> JUndefined | Some i \<Rightarrow> JString i)
   \<and> map_of (fields (toJSON (HyperProcError_new msg os))) ''cause'' =
       Some (if truthy (opt_cause os)
             then JObject [(''name'', name_of (opt_cause os)), (''message'', message_json (opt_cause os))]
             else JUndefined)
   \<and> is_leaf (name_of (opt_cause os)) \<and> is_leaf (message_json (opt_cause os))
   \<and> map_of (fields (toJSON (HyperProcError_new msg os))) ''state'' = None
   \<and> toJSON (HyperProcError_new msg (os\<lparr>opt_state := s\<rparr>)) = toJSON (HyperProcError_new msg os)"
proof -
  have leaf: "is_leaf (name_of c) \<and> is_leaf (message_json c)" for c
    by (cases c) simp_all
  show ?thesis
    using leaf [of "opt_cause os"]
    by (simp add: toJSON_def HyperProcError_new_def err_name_def)
qed

section \<open>The error protocol of \<open>run\<close>\<close>

text \<open>
  Claim C2. In a run on a valid initial state, let the loop raise an error: \<open>x\<close> is
  thrown while the record with id \<open>i\<close> and tag \<open>t\<close> is interpreted, \<open>st\<close> is the
  state then. The record is the first that fails: the records before it completed, and
  nothing of the run depends on the records after it, whatever they are, so none of them
  executes. The error is normalized: a pipeline error is kept as it is, any other thrown
  value is wrapped into one that carries the string of \<open>t\<close>, \<open>i\<close> and \<open>st\<close> (and the
  value as cause). The recovery handler is called exactly once, with the normalized error,
  \<open>st\<close> and the environment: the events of the run are those of the loop followed by
  this one call, and the loop has no call of the handler. When the handler throws or
  rejects with \<open>y\<close>, \<open>run\<close> rejects with \<open>y\<close> itself, and the handler is not called
  again.
\<close>

theorem first_error_protocol:
  assumes valid: "isState w s = Inr True"
      and failed: "run_ops env ops s w = (Failed x i t st, w1, tr)"
      and handled: "h (normalize_error x i t st) st env w1 = (res, w2)"
  shows "(\<exists>pre r post w0 tr0 tr1.
            ops = pre @ r # post \<and> i = rec_id r \<and> t = rec_op r
          \<and> run_ops env pre s w = (Done st, w0, tr0)
          \<and> exec env r st w0 = (Raise x, w1, tr1) \<and> tr = tr0 @ tr1
          \<and> (\<forall>post'. run_ops env (pre @ r # post') s w = (Failed x i t st, w1, tr)))
       \<and> normalize_error x i t st =
           (case x of
              PipelineError e \<Rightarrow> e
            | _ \<Rightarrow> HyperProcError (message_of x) (String_symbol t) i (Some st)
                     (if truthy x then Some x else None))
       \<and> (\<exists>out. run (HyperProc env ops h) s w = (out, w2, tr @ [Recovery (normalize_error x i t st) st env])
              \<and> (\<forall>y. res = Rejected y \<longrightarrow> out = Rejected y))
       \<and> recoveries (tr @ [Recovery (normalize_error x i t st) st env]) = [Recovery (normalize_error x i t st) st env]"
proof -
  from valid have ps: "plain w s" by (simp add: isState_True)
  from run_ops_ref [OF plain_is_ref [OF ps], of env ops w] failed have rst: "is_ref st" by blast
  from run_ops_failed_decomp [OF failed]
  obtain pre r post w0 tr0 tr1 where d: "ops = pre @ r # post" "i = rec_id r" "t = rec_op r"
      "run_ops env pre s w = (Done st, w0, tr0)" "exec env r st w0 = (Raise x, w1, tr1)" "tr = tr0 @ tr1"
    by blast
  have later: "run_ops env (pre @ r # post') s w = (Failed x i t st, w1, tr)" for post'
    by (simp add: run_ops_append d)
  have part1: "\<exists>pre r post w0 tr0 tr1.
            ops = pre @ r # post \<and> i = rec_id r \<and> t = rec_op r
          \<and> run_ops env pre s w = (Done st, w0, tr0)
          \<and> exec env r st w0 = (Raise x, w1, tr1) \<and> tr = tr0 @ tr1
          \<and> (\<forall>post'. run_ops env (pre @ r # post') s w = (Failed x i t st, w1, tr))"
    using d later by blast
  have part2: "normalize_error x i t st =
           (case x of
              PipelineError e \<Rightarrow> e
            | _ \<Rightarrow> HyperProcError (message_of x) (String_symbol t) i (Some st)
                     (if truthy x then Some x else None))"
    using is_ref_not_undefined [OF rst] by (simp add: normalize_error_eq)
  have part3: "\<exists>out. run (HyperProc env ops h) s w = (out, w2, tr @ [Recovery (normalize_error x i t st) st env])
              \<and> (\<forall>y. res = Rejected y \<longrightarrow> out = Rejected y)"
    using handled unfolding run_failed [OF ps failed]
    by (cases res) (simp_all add: recover_def Let_def split: option.splits)
  have part4: "recoveries (tr @ [Recovery (normalize_error x i t st) st env]) = [Recovery (normalize_error x i t st) st env]"
    using run_ops_no_recovery [OF failed] by (simp add: recoveries_def)
  from part1 part2 part3 part4 show ?thesis by blast
qed

theorem first_error_protocol_witness:
  "isState empty_world obj0 = Inr True
   \<and> run_ops obj1 test_ops obj0 empty_world =
       (Failed boom None APPLY_TO obj0, world_with ''ok'' (Num ''1''),
        [Invoked AUGMENT (Some ''ok'') [obj0, obj1], Invoked APPLY_TO None [obj0, obj1]])
   \<and> run (HyperProc obj1 test_ops bubble_onError) obj0 empty_world =
       (Rejected (PipelineError (HyperProcError ''boom'' ''Symbol(APPLY_TO)'' None (Some obj0) (Some boom))),
        world_with ''ok'' (Num ''1''),
        [Invoked AUGMENT (Some ''ok'') [obj0, obj1], Invoked APPLY_TO None [obj0, obj1],
         Recovery (HyperProcError ''boom'' ''Symbol(APPLY_TO)'' None (Some obj0) (Some boom)) obj0 obj1])"
proof -
  let ?w1 = "world_with ''ok'' (Num ''1'')"
  let ?e = "HyperProcError ''boom'' ''Symbol(APPLY_TO)'' None (Some obj0) (Some boom)"
  have v: "isState empty_world obj0 = Inr True"
    by (simp add: isState_True plain_obj0_empty)
  have n: "normalize_error boom None APPLY_TO obj0 = ?e"
    by (simp add: normalize_error_eq boom_def obj0_def String_symbol_def)
  have h: "bubble_onError (normalize_error boom None APPLY_TO obj0) obj0 obj1 ?w1 = (Rejected (PipelineError ?e), ?w1)"
    by (simp add: n bubble_onError_def)
  from first_error_protocol [where h = bubble_onError, OF v test_loop [of obj1] h] v test_loop [of obj1] n
  show ?thesis
    by auto
qed

text \<open>
  Claim C3, amended. In a run in which the recovery handler is called (the loop raised an
  error on a valid initial state) and returns \<open>result\<close>, the candidate is the state at
  failure when \<open>result\<close> is \<open>undefined\<close>, and \<open>result\<close> otherwise. The state predicate
  is applied to the candidate in the world the handler left. When it holds, \<open>run\<close>
  resolves with the candidate; when it does not, \<open>run\<close> rejects with the TypeError that
  \<open>onError\<close> must return \<open>undefined\<close> or an object; when the predicate itself throws
  (on a revoked Proxy), \<open>run\<close> rejects with what it threw. Nothing of this is passed to
  the handler: the call that returned \<open>result\<close> stays the only one. So a handler that
  returns \<open>undefined\<close> makes \<open>run\<close> resolve with the state at failure only when that
  state still satisfies the predicate.
\<close>

theorem recovery_result:
  assumes valid: "isState w s = Inr True"
      and failed: "run_ops env ops s w = (Failed x i t st, w1, tr)"
      and handled: "h (normalize_error x i t st) st env w1 = (Fulfilled result, w2)"
  shows "run (HyperProc env ops h) s w =
           ((case isState w2 (if result = Undefined then st else result) of
               Inl y \<Rightarrow> Rejected y
             | Inr valid \<Rightarrow>
                 if valid then Fulfilled (if result = Undefined then st else result)
                 else Rejected (TypeError ''HyperProc.onError must return UNDEFINED or an OBJECT as state'')),
            w2, tr @ [Recovery (normalize_error x i t st) st env])
       \<and> recoveries (tr @ [Recovery (normalize_error x i t st) st env]) = [Recovery (normalize_error x i t st) st env]"
proof -
  from valid have ps: "plain w s" by (simp add: isState_True)
  have "run (HyperProc env ops h) s w =
           ((case isState w2 (if result = Undefined then st else result) of
               Inl y \<Rightarrow> Rejected y
             | Inr valid \<Rightarrow>
                 if valid then Fulfilled (if result = Undefined then st else result)
                 else Rejected (TypeError ''HyperProc.onError must return UNDEFINED or an OBJECT as state'')),
            w2, tr @ [Recovery (normalize_error x i t st) st env])"
    using handled unfolding run_failed [OF ps failed]
    by (simp add: recover_def Let_def require_state_def split: sum.splits)
  moreover have "recoveries (tr @ [Recovery (normalize_error x i t st) st env]) = [Recovery (normalize_error x i t st) st env]"
    using run_ops_no_recovery [OF failed] by (simp add: recoveries_def)
  ultimately show ?thesis by blast
qed

text \<open>
  The claim as stated fails in its first case. \<open>augment("__proto__", () => [])\<close> on
  \<open>{}\<close> calls the setter the object inherits from \<open>Object.prototype\<close>, which makes
  the array the prototype of the state and writes no field; \<open>applyTo\<close> then throws; the
  handler returns \<open>undefined\<close>, and \<open>run\<close> rejects with the TypeError of \<open>onError\<close>,
  as the state at failure is no plain object any more.
\<close>

theorem recovery_result_counterexample:
  "isState empty_world obj0 = Inr True
   \<and> fst (run (HyperProc obj1 proto_ops (const_handler Undefined)) obj0 empty_world) =
       Rejected (TypeError ''HyperProc.onError must return UNDEFINED or an OBJECT as state'')
   \<and> snd (snd (run (HyperProc obj1 proto_ops (const_handler Undefined)) obj0 empty_world)) =
       [Invoked AUGMENT (Some ''__proto__'') [obj0, obj1], Invoked APPLY_TO None [obj0, obj1],
        Recovery (HyperProcError ''boom'' ''Symbol(APPLY_TO)'' None (Some obj0) (Some boom)) obj0 obj1]"
  by (simp add: proto_ops_def isState_True require_state_cases obj0_def empty_world_def empty_object_def
      call_def const_fn_def throw_fn_def key_of_def store_def assign_def walk_simps builtin_lookup_def
      proto_setter_def set_proto_def normalize_error_eq boom_def String_symbol_def
      recover_def const_handler_def)

theorem recovery_result_witness:
  "isState empty_world obj0 = Inr True
   \<and> fst (run (HyperProc obj1 test_ops (const_handler Undefined)) obj0 empty_world) = Fulfilled obj0
   \<and> fst (run (HyperProc obj1 test_ops (const_handler obj1)) obj0 empty_world) = Fulfilled obj1
   \<and> fst (run (HyperProc obj1 test_ops (const_handler (Num ''123''))) obj0 empty_world) =
        Rejected (TypeError ''HyperProc.onError must return UNDEFINED or an OBJECT as state'')"
proof -
  let ?w1 = "world_with ''ok'' (Num ''1'')"
  have v: "isState empty_world obj0 = Inr True"
    by (simp add: isState_True plain_obj0_empty)
  have h: "const_handler r (normalize_error boom None APPLY_TO obj0) obj0 obj1 w = (Fulfilled r, w)" for r w
    by (simp add: const_handler_def)
  have p0: "isState ?w1 obj0 = Inr True"
    by (simp add: isState_True plain_obj0_with)
  have p1: "isState ?w1 obj1 = Inr True"
    by (simp add: isState_True world_with_def obj0_def obj1_def empty_world_def empty_object_def)
  have p2: "isState ?w1 (Num ''123'') = Inr False"
    by (simp add: isState_cases)
  from recovery_result [where h = "const_handler Undefined", OF v test_loop [of obj1] h]
       recovery_result [where h = "const_handler obj1", OF v test_loop [of obj1] h]
       recovery_result [where h = "const_handler (Num ''123'')", OF v test_loop [of obj1] h] v p0 p1 p2
  show ?thesis
    by (simp add: obj1_def)
qed

section \<open>The operations\<close>




text \<open>
  Claim C4. Under the default handler, the pipeline \<open>augment("ok", () => 1)\<close>,
  \<open>applyTo\<close> of a function that throws (any value \<open>x\<close>), \<open>augment("after", () => 2)\<close>
  run on an empty plain object resolves with that object, whose own properties are now
  exactly \<open>ok: 1\<close>; no other object changed; the function of \<open>after\<close> is never
  called, and the handler is called once.
\<close>

theorem default_policy_swallows:
  assumes "heap w a = empty_object"
  shows "\<exists>w'. run (augment ''after'' (const_fn (Num ''2''))
                  (applyTo (throw_fn x)
                    (augment ''ok'' (const_fn (Num ''1'')) (HyperProc_new env)))) (Ref a) w =
           (Fulfilled (Ref a), w',
            [Invoked AUGMENT (Some ''ok'') [Ref a, env],
             Invoked APPLY_TO None [Ref a, env],
             Recovery (normalize_error x None APPLY_TO (Ref a)) (Ref a) env])
         \<and> heap w' = (heap w)(a := \<lparr>obj_proto = ObjectPrototype, obj_props = [''ok'' \<mapsto> Num ''1'']\<rparr>)"
  using assms
  by (simp add: augment_def applyTo_def push_def HyperProc_new_def require_state_cases empty_object_def
      call_def const_fn_def throw_fn_def key_of_def store_def assign_def walk_simps builtin_lookup_def
      recover_def default_onError_def)

theorem default_policy_swallows_witness:
  "heap empty_world 0 = empty_object
   \<and> fst (run (augment ''after'' (const_fn (Num ''2''))
                  (applyTo (throw_fn boom)
                    (augment ''ok'' (const_fn (Num ''1'')) (HyperProc_new obj1)))) obj0 empty_world) = Fulfilled obj0
   \<and> heap (fst (snd (run (augment ''after'' (const_fn (Num ''2''))
                  (applyTo (throw_fn boom)
                    (augment ''ok'' (const_fn (Num ''1'')) (HyperProc_new obj1)))) obj0 empty_world))) 0 =
        \<lparr>obj_proto = ObjectPrototype, obj_props = [''ok'' \<mapsto> Num ''1'']\<rparr>"
proof -
  have h: "heap empty_world 0 = empty_object"
    by (simp add: empty_world_def)
  from default_policy_swallows [of empty_world 0 boom obj1] h
  show ?thesis
    by (auto simp: obj0_def)
qed

section \<open>Chained engines\<close>

text \<open>
  Claim C5. Let a child have the handler of the bubbling variant, be queued with
  \<open>chain\<close> in a parent whose handler rethrows the error it is given, and let the
  parent's run (on a valid state) reach the chain record with the state \<open>s1\<close>. When
  \<open>s1\<close> satisfies the state predicate and the child's loop fails with \<open>x\<close>, the
  parent's run rejects with the pipeline error the child made of \<open>x\<close>, and its message
  is the message of \<open>x\<close>. When \<open>s1\<close> does not satisfy the predicate any more (a
  record before the chain changed its prototype), the child's run fails on entry with its
  TypeError, and the parent's run rejects with the pipeline error made of this TypeError,
  which carries its message.
\<close>

theorem bubbling_propagates:
  assumes valid: "isState w s = Inr True"
      and bubbling: "hp_onError child = hp_onError (HyperSubProc_new cenv)"
      and reached: "run_ops penv pre s w = (Done s1, w1, tr1)"
      and rethrows: "\<forall>e st' env' w'. fst (ph e st' env' w') = Rejected (PipelineError e)"
  shows "(isState w1 s1 = Inr True \<longrightarrow>
          run_ops (hp_env child) (hp_ops child) s1 w1 = (Failed x ci ct st, w2, tr2) \<longrightarrow>
            (\<exists>w' tr. run (HyperProc penv (pre @ OpRec i (Proc child) CHAIN # post) ph) s w =
                       (Rejected (PipelineError (normalize_error x ci ct st)), w', tr))
          \<and> err_message (normalize_error x ci ct st) = message_of x)
       \<and> (isState w1 s1 \<noteq> Inr True \<longrightarrow>
            (\<exists>w' tr. run (HyperProc penv (pre @ OpRec i (Proc child) CHAIN # post) ph) s w =
                       (Rejected (PipelineError (HyperProcError
                          ''HyperProc.run expects an OBJECT as state'' ''Symbol(CHAIN)'' i (Some s1)
                          (Some (TypeError ''HyperProc.run expects an OBJECT as state'')))), w', tr)))"
proof -
  from valid have ps: "plain w s" by (simp add: isState_True)
  from run_ops_ref [OF plain_is_ref [OF ps], of penv pre w] reached have rs1: "is_ref s1" by blast
  obtain cenv' cops ch where child: "child = HyperProc cenv' cops ch"
    by (cases child) auto
  with bubbling have ch: "ch = bubble_onError" by (simp add: HyperSubProc_new_def)
  have rejected: "\<exists>w' tr. run (HyperProc penv (pre @ OpRec i (Proc child) CHAIN # post) ph) s w =
                      (Rejected (PipelineError (normalize_error y i CHAIN s1)), w', tr)"
    if nested: "run child s1 w1 = (Rejected y, w2', tr2')" for y w2' tr2'
  proof -
    let ?e = "normalize_error y i CHAIN s1"
    have loop: "run_ops penv (pre @ OpRec i (Proc child) CHAIN # post) s w =
                  (Failed y i CHAIN s1, w2', tr1 @ [Chained tr2'])"
      by (simp add: run_ops_append reached nested)
    obtain r w3 where ph: "ph ?e s1 penv w2' = (r, w3)"
      by (cases "ph ?e s1 penv w2'") auto
    with rethrows have r: "r = Rejected (PipelineError ?e)"
      by (metis fst_conv)
    have "run (HyperProc penv (pre @ OpRec i (Proc child) CHAIN # post) ph) s w =
            (Rejected (PipelineError ?e), w3, (tr1 @ [Chained tr2']) @ [Recovery ?e s1 penv])"
      unfolding run_failed [OF ps loop]
      by (simp add: recover_def ph r)
    then show ?thesis by blast
  qed
  have caseA: "(\<exists>w' tr. run (HyperProc penv (pre @ OpRec i (Proc child) CHAIN # post) ph) s w =
                       (Rejected (PipelineError (normalize_error x ci ct st)), w', tr))
          \<and> err_message (normalize_error x ci ct st) = message_of x"
    if v1: "isState w1 s1 = Inr True"
      and failure: "run_ops (hp_env child) (hp_ops child) s1 w1 = (Failed x ci ct st, w2, tr2)"
  proof -
    let ?e = "normalize_error x ci ct st"
    from v1 have ps1: "plain w1 s1" by (simp add: isState_True)
    from failure child have f: "run_ops cenv' cops s1 w1 = (Failed x ci ct st, w2, tr2)" by simp
    have nested: "run child s1 w1 = (Rejected (PipelineError ?e), w2, tr2 @ [Recovery ?e st cenv'])"
      unfolding child ch run_failed [OF ps1 f]
      by (simp add: recover_def bubble_onError_def)
    from rejected [OF nested] show ?thesis
      by (simp add: normalize_error_pipeline message_normalize_error)
  qed
  have caseB: "\<exists>w' tr. run (HyperProc penv (pre @ OpRec i (Proc child) CHAIN # post) ph) s w =
                       (Rejected (PipelineError (HyperProcError
                          ''HyperProc.run expects an OBJECT as state'' ''Symbol(CHAIN)'' i (Some s1)
                          (Some (TypeError ''HyperProc.run expects an OBJECT as state'')))), w', tr)"
    if v1: "isState w1 s1 \<noteq> Inr True"
  proof -
    from v1 rs1 have "isState w1 s1 = Inr False" by (simp add: isState_ref)
    from run_invalid [OF this, of child]
    have nested: "run child s1 w1 = (Rejected (TypeError ''HyperProc.run expects an OBJECT as state''), w1, [])" .
    from rejected [OF nested] is_ref_not_undefined [OF rs1] show ?thesis
      by (simp add: normalize_error_eq String_symbol_def)
  qed
  from caseA caseB show ?thesis by blast
qed

theorem bubbling_propagates_witness:
  "isState empty_world obj0 = Inr True
   \<and> hp_onError bubbling_child = hp_onError (HyperSubProc_new obj1)
   \<and> fst (run (HyperProc obj2 [OpRec None (Proc bubbling_child) CHAIN] bubble_onError) obj0 empty_world) =
       Rejected (PipelineError (HyperProcError ''boom'' ''Symbol(APPLY_TO)'' None (Some obj0) (Some boom)))
   \<and> fst (run (HyperProc obj2 [OpRec (Some ''__proto__'') (Fn (const_fn (Arr []))) AUGMENT,
                               OpRec None (Proc bubbling_child) CHAIN] bubble_onError) obj0 empty_world) =
       Rejected (PipelineError (HyperProcError
                  ''HyperProc.run expects an OBJECT as state'' ''Symbol(CHAIN)'' None (Some obj0)
                  (Some (TypeError ''HyperProc.run expects an OBJECT as state''))))"
proof -
  let ?w1 = "world_with ''x'' (Num ''1'')"
  let ?wp = "set_proto empty_world 0 (ObjectAsPrototype (Arr []))"
  have v: "isState empty_world obj0 = Inr True"
    by (simp add: isState_True plain_obj0_empty)
  have b: "hp_onError bubbling_child = hp_onError (HyperSubProc_new obj1)"
    by (simp add: bubbling_child_def applyTo_def augment_def push_def HyperSubProc_new_def)
  have r: "run_ops obj2 [] obj0 empty_world = (Done obj0, empty_world, [])"
    by simp
  have f: "run_ops (hp_env bubbling_child) (hp_ops bubbling_child) obj0 empty_world =
             (Failed boom None APPLY_TO obj0, ?w1,
              [Invoked AUGMENT (Some ''x'') [obj0, obj1], Invoked APPLY_TO None [obj0, obj1]])"
    by (simp add: bubbling_child_def applyTo_def augment_def push_def HyperSubProc_new_def world_with_def
        obj0_def empty_world_def empty_object_def call_def const_fn_def throw_fn_def key_of_def
        store_def assign_def walk_simps builtin_lookup_def)
  have t: "\<forall>e st' env' w'. fst (bubble_onError e st' env' w') = Rejected (PipelineError e)"
    by (simp add: bubble_onError_def)
  have n: "normalize_error boom None APPLY_TO obj0 = HyperProcError ''boom'' ''Symbol(APPLY_TO)'' None (Some obj0) (Some boom)"
    by (simp add: normalize_error_eq boom_def obj0_def String_symbol_def)
  have r2: "run_ops obj2 [OpRec (Some ''__proto__'') (Fn (const_fn (Arr []))) AUGMENT] obj0 empty_world =
              (Done obj0, ?wp, [Invoked AUGMENT (Some ''__proto__'') [obj0, obj2]])"
    by (simp add: obj0_def empty_world_def empty_object_def call_def const_fn_def key_of_def
        store_def assign_def walk_simps builtin_lookup_def proto_setter_def set_proto_def)
  have v2: "isState ?wp obj0 \<noteq> Inr True"
    by (simp add: isState_True obj0_def set_proto_def)
  from bubbling_propagates [where ph = bubble_onError and pre = "[]" and post = "[]" and i = None
         and x = boom and ci = None and ct = APPLY_TO and st = obj0 and ?w2.0 = ?w1
         and ?tr2.0 = "[Invoked AUGMENT (Some ''x'') [obj0, obj1], Invoked APPLY_TO None [obj0, obj1]]",
         OF v b r t, THEN conjunct1, rule_format, OF v f]
       bubbling_propagates [where ph = bubble_onError
         and pre = "[OpRec (Some ''__proto__'') (Fn (const_fn (Arr []))) AUGMENT]" and post = "[]" and i = None,
         OF v b r2 t, THEN conjunct2, rule_format, OF v2]
       v b n
  show ?thesis
    by auto
qed



section \<open>The reference \<open>run\<close> resolves with\<close>




section \<open>Shape violations\<close>

text \<open>
  Claim C1, amended. An initial state that fails the state predicate makes \<open>run\<close>
  reject with a plain TypeError before any record runs, and the handler is not called
  (the TypeError is the one of \<open>run\<close>, or the one the predicate throws on a revoked
  Proxy). A handler result that is neither \<open>undefined\<close> nor a valid state makes
  \<open>run\<close> reject with a plain TypeError, which is not passed to the handler. A
  \<open>chain\<close> argument that is not an engine makes \<open>chain\<close> itself throw a plain
  TypeError, when the queue is built. But a result of \<open>applyTo\<close> or of a chained run
  that fails the state predicate raises its TypeError inside the loop: it is wrapped into
  a pipeline error (with the record's tag and id, the state, and the TypeError as cause)
  and passed to the recovery handler, which decides how the run ends; under the default
  handler the run resolves with the state at failure when that state satisfies the
  predicate, and rejects with the TypeError of \<open>onError\<close> when it does not.
\<close>

theorem shape_violations:
  "(isState w s = Inr False \<longrightarrow>
      run hp s w = (Rejected (TypeError ''HyperProc.run expects an OBJECT as state''), w, []))
   \<and> (isState w s = Inl y \<longrightarrow> run hp s w = (Rejected y, w, []))
   \<and> (isState w s = Inr True \<longrightarrow> run_ops env ops s w = (Failed x i t st, w1, tr) \<longrightarrow>
        h (normalize_error x i t st) st env w1 = (Fulfilled r, w2) \<longrightarrow>
        r \<noteq> Undefined \<longrightarrow> isState w2 r = Inr False \<longrightarrow>
        run (HyperProc env ops h) s w =
          (Rejected (TypeError ''HyperProc.onError must return UNDEFINED or an OBJECT as state''), w2,
           tr @ [Recovery (normalize_error x i t st) st env]))
   \<and> chain (NoInstance u) hp = Inl (TypeError ''Can only chain to an instance of HyperProc'')
   \<and> (isState w s = Inr True \<longrightarrow> run_ops env pre s w = (Done st, w0, tr0) \<longrightarrow>
        f [st, env] w0 = (Fulfilled nv, w1) \<longrightarrow> isState w1 nv = Inr False \<longrightarrow>
        run (HyperProc env (pre @ OpRec i (Fn f) APPLY_TO # post) h) s w =
          (case recover h env
                  (HyperProcError applyTo_msg ''Symbol(APPLY_TO)'' i (Some st) (Some (TypeError applyTo_msg)))
                  st w1 of
             (out, w2, tr') \<Rightarrow> (out, w2, tr0 @ [Invoked APPLY_TO i [st, env]] @ tr'))
      \<and> run (HyperProc env (pre @ OpRec i (Fn f) APPLY_TO # post) default_onError) s w =
          ((if isState w1 st = Inr True then Fulfilled st
            else Rejected (TypeError ''HyperProc.onError must return UNDEFINED or an OBJECT as state'')),
           w1\<lparr>console := console w1 @
              [PipelineError (HyperProcError applyTo_msg ''Symbol(APPLY_TO)'' i (Some st) (Some (TypeError applyTo_msg)))]\<rparr>,
           tr0 @ [Invoked APPLY_TO i [st, env],
                  Recovery (HyperProcError applyTo_msg ''Symbol(APPLY_TO)'' i (Some st) (Some (TypeError applyTo_msg))) st env]))
   \<and> (isState w s = Inr True \<longrightarrow> run_ops env pre s w = (Done st, w0, tr0) \<longrightarrow>
        g [st] w0 = (Fulfilled nv, w1) \<longrightarrow> isState w1 nv = Inr False \<longrightarrow>
        run (HyperProc env (pre @ OpRec i (ProcWithRun g) CHAIN # post) h) s w =
          (case recover h env
                  (HyperProcError chain_msg ''Symbol(CHAIN)'' i (Some st) (Some (TypeError chain_msg)))
                  st w1 of
             (out, w2, tr') \<Rightarrow> (out, w2, tr0 @ [Invoked CHAIN i [st]] @ tr'))
      \<and> run (HyperProc env (pre @ OpRec i (ProcWithRun g) CHAIN # post) default_onError) s w =
          ((if isState w1 st = Inr True then Fulfilled st
            else Rejected (TypeError ''HyperProc.onError must return UNDEFINED or an OBJECT as state'')),
           w1\<lparr>console := console w1 @
              [PipelineError (HyperProcError chain_msg ''Symbol(CHAIN)'' i (Some st) (Some (TypeError chain_msg)))]\<rparr>,
           tr0 @ [Invoked CHAIN i [st],
                  Recovery (HyperProcError chain_msg ''Symbol(CHAIN)'' i (Some st) (Some (TypeError chain_msg))) st env]))"
proof -
  have input: "run hp s w = (Rejected (TypeError ''HyperProc.run expects an OBJECT as state''), w, [])"
    if "isState w s = Inr False"
    using that by (rule run_invalid)
  have thrown: "run hp s w = (Rejected y, w, [])" if "isState w s = Inl y"
    using that by (rule run_guard_throws)
  have result: "run (HyperProc env ops h) s w =
          (Rejected (TypeError ''HyperProc.onError must return UNDEFINED or an OBJECT as state''), w2,
           tr @ [Recovery (normalize_error x i t st) st env])"
    if "isState w s = Inr True" "run_ops env ops s w = (Failed x i t st, w1, tr)"
       "h (normalize_error x i t st) st env w1 = (Fulfilled r, w2)" "r \<noteq> Undefined" "isState w2 r = Inr False"
  proof -
    from that(1) have ps: "plain w s" by (simp add: isState_True)
    from that(3,4,5) show ?thesis
      unfolding run_failed [OF ps that(2)]
      by (simp add: recover_def require_state_def)
  qed
  have arg: "chain (NoInstance u) hp = Inl (TypeError ''Can only chain to an instance of HyperProc'')"
    by (simp add: chain_def)
  have wrapped: "normalize_error (TypeError m) i t st = HyperProcError m (String_symbol t) i (Some st) (Some (TypeError m))"
    if "is_ref st" for m i t st
    using is_ref_not_undefined [OF that] by (simp add: normalize_error_eq)
  have dflt: "recover default_onError env e st w1 =
                ((if isState w1 st = Inr True then Fulfilled st
                  else Rejected (TypeError ''HyperProc.onError must return UNDEFINED or an OBJECT as state'')),
                 w1\<lparr>console := console w1 @ [PipelineError e]\<rparr>, [Recovery e st env])"
    if "is_ref st" for e st w1
    using that is_ref_not_undefined [OF that]
    by (simp add: recover_def default_onError_def require_state_ref isState_True)
  have rst: "is_ref st" if "isState w s = Inr True" "run_ops env pre s w = (Done st, w0, tr0)"
    using that run_ops_ref [of s env pre w] by (auto simp: isState_True dest: plain_is_ref)
  have app: "run (HyperProc env (pre @ OpRec i (Fn f) APPLY_TO # post) h') s w =
          (case recover h' env
                  (HyperProcError applyTo_msg ''Symbol(APPLY_TO)'' i (Some st) (Some (TypeError applyTo_msg)))
                  st w1 of
             (out, w2, tr') \<Rightarrow> (out, w2, tr0 @ [Invoked APPLY_TO i [st, env]] @ tr'))"
    if "isState w s = Inr True" "run_ops env pre s w = (Done st, w0, tr0)"
       "f [st, env] w0 = (Fulfilled nv, w1)" "isState w1 nv = Inr False" for h'
  proof -
    from that(1) have ps: "plain w s" by (simp add: isState_True)
    have loop: "run_ops env (pre @ OpRec i (Fn f) APPLY_TO # post) s w =
                  (Failed (TypeError applyTo_msg) i APPLY_TO st, w1, tr0 @ [Invoked APPLY_TO i [st, env]])"
      using that(2,3,4) by (simp add: run_ops_append call_def require_state_def applyTo_msg_def)
    show ?thesis
      unfolding run_failed [OF ps loop] wrapped [OF rst [OF that(1,2)]]
      by (simp add: String_symbol_def)
  qed
  have chn: "run (HyperProc env (pre @ OpRec i (ProcWithRun g) CHAIN # post) h') s w =
          (case recover h' env
                  (HyperProcError chain_msg ''Symbol(CHAIN)'' i (Some st) (Some (TypeError chain_msg)))
                  st w1 of
             (out, w2, tr') \<Rightarrow> (out, w2, tr0 @ [Invoked CHAIN i [st]] @ tr'))"
    if "isState w s = Inr True" "run_ops env pre s w = (Done st, w0, tr0)"
       "g [st] w0 = (Fulfilled nv, w1)" "isState w1 nv = Inr False" for h'
  proof -
    from that(1) have ps: "plain w s" by (simp add: isState_True)
    have loop: "run_ops env (pre @ OpRec i (ProcWithRun g) CHAIN # post) s w =
                  (Failed (TypeError chain_msg) i CHAIN st, w1, tr0 @ [Invoked CHAIN i [st]])"
      using that(2,3,4) by (simp add: run_ops_append require_state_def chain_msg_def)
    show ?thesis
      unfolding run_failed [OF ps loop] wrapped [OF rst [OF that(1,2)]]
      by (simp add: String_symbol_def)
  qed
  have app_d: "run (HyperProc env (pre @ OpRec i (Fn f) APPLY_TO # post) default_onError) s w =
          ((if isState w1 st = Inr True then Fulfilled st
            else Rejected (TypeError ''HyperProc.onError must return UNDEFINED or an OBJECT as state'')),
           w1\<lparr>console := console w1 @
              [PipelineError (HyperProcError applyTo_msg ''Symbol(APPLY_TO)'' i (Some st) (Some (TypeError applyTo_msg)))]\<rparr>,
           tr0 @ [Invoked APPLY_TO i [st, env],
                  Recovery (HyperProcError applyTo_msg ''Symbol(APPLY_TO)'' i (Some st) (Some (TypeError applyTo_msg))) st env])"
    if "isState w s = Inr True" "run_ops env pre s w = (Done st, w0, tr0)"
       "f [st, env] w0 = (Fulfilled nv, w1)" "isState w1 nv = Inr False"
    unfolding app [OF that] dflt [OF rst [OF that(1,2)]] by simp
  have chn_d: "run (HyperProc env (pre @ OpRec i (ProcWithRun g) CHAIN # post) default_onError) s w =
          ((if isState w1 st = Inr True then Fulfilled st
            else Rejected (TypeError ''HyperProc.onError must return UNDEFINED or an OBJECT as state'')),
           w1\<lparr>console := console w1 @
              [PipelineError (HyperProcError chain_msg ''Symbol(CHAIN)'' i (Some st) (Some (TypeError chain_msg)))]\<rparr>,
           tr0 @ [Invoked CHAIN i [st],
                  Recovery (HyperProcError chain_msg ''Symbol(CHAIN)'' i (Some st) (Some (TypeError chain_msg))) st env])"
    if "isState w s = Inr True" "run_ops env pre s w = (Done st, w0, tr0)"
       "g [st] w0 = (Fulfilled nv, w1)" "isState w1 nv = Inr False"
    unfolding chn [OF that] dflt [OF rst [OF that(1,2)]] by simp
  from input thrown result arg app app_d chn chn_d show ?thesis
    by blast
qed

text \<open>
  The claim as stated fails: \<open>applyTo(() => 123)\<close> under the default handler. The
  TypeError of the guard is passed to the handler, wrapped, and the run resolves.
\<close>

theorem shape_violations_counterexample:
  "isState empty_world obj0 = Inr True \<and> isState empty_world (Num ''123'') = Inr False
   \<and> run misbehaving obj0 empty_world =
       (Fulfilled obj0,
        empty_world\<lparr>console :=
          [PipelineError (HyperProcError applyTo_msg ''Symbol(APPLY_TO)'' None (Some obj0)
                            (Some (TypeError applyTo_msg)))]\<rparr>,
        [Invoked APPLY_TO None [obj0, obj1],
         Recovery (HyperProcError applyTo_msg ''Symbol(APPLY_TO)'' None (Some obj0)
                     (Some (TypeError applyTo_msg))) obj0 obj1])"
  by (simp add: misbehaving_def applyTo_def push_def HyperProc_new_def isState_cases require_state_cases
      obj0_def empty_world_def empty_object_def call_def const_fn_def normalize_error_eq String_symbol_def
      recover_def default_onError_def applyTo_msg_def)

theorem shape_violations_witness:
  "run (HyperProc_new obj1) Null empty_world =
     (Rejected (TypeError ''HyperProc.run expects an OBJECT as state''), empty_world, [])
   \<and> run (HyperProc_new obj1) (RevokedProxy False) empty_world =
       (Rejected (TypeError (revoked_msg ''IsArray'')), empty_world, [])
   \<and> fst (run (HyperProc obj1 test_ops (const_handler (Num ''123''))) obj0 empty_world) =
       Rejected (TypeError ''HyperProc.onError must return UNDEFINED or an OBJECT as state'')
   \<and> chain (NoInstance (Num ''5'')) (HyperProc_new obj1) =
       Inl (TypeError ''Can only chain to an instance of HyperProc'')
   \<and> fst (run (HyperProc obj1 [OpRec None (Fn (const_fn (Num ''123''))) APPLY_TO] bubble_onError) obj0 empty_world) =
       Rejected (PipelineError (HyperProcError applyTo_msg ''Symbol(APPLY_TO)'' None (Some obj0)
                                  (Some (TypeError applyTo_msg))))
   \<and> fst (run (HyperProc obj1 [OpRec None (ProcWithRun (const_fn (Num ''123''))) CHAIN] default_onError) obj0 empty_world) =
       Fulfilled obj0"
proof -
  let ?w1 = "world_with ''ok'' (Num ''1'')"
  have v: "isState empty_world obj0 = Inr True" and n: "isState empty_world Null = Inr False"
    and m: "isState w (Num ''123'') = Inr False"
    and p: "isState empty_world (RevokedProxy False) = Inl (TypeError (revoked_msg ''IsArray''))" for w
    by (simp_all add: isState_cases obj0_def empty_world_def empty_object_def)
  have h: "const_handler (Num ''123'') (normalize_error boom None APPLY_TO obj0) obj0 obj1 ?w1 = (Fulfilled (Num ''123''), ?w1)"
    by (simp add: const_handler_def)
  have f: "const_fn (Num ''123'') args empty_world = (Fulfilled (Num ''123''), empty_world)" for args
    by (simp add: const_fn_def)
  have q: "run_ops obj1 [] obj0 empty_world = (Done obj0, empty_world, [])"
    by simp
  have input: "run (HyperProc_new obj1) Null empty_world =
     (Rejected (TypeError ''HyperProc.run expects an OBJECT as state''), empty_world, [])"
    using shape_violations [where s = Null and hp = "HyperProc_new obj1" and w = empty_world, THEN conjunct1] n
    by simp
  have thrown: "run (HyperProc_new obj1) (RevokedProxy False) empty_world =
       (Rejected (TypeError (revoked_msg ''IsArray'')), empty_world, [])"
    using shape_violations [where s = "RevokedProxy False" and hp = "HyperProc_new obj1" and w = empty_world
         and y = "TypeError (revoked_msg ''IsArray'')", THEN conjunct2, THEN conjunct1] p
    by simp
  have result: "run (HyperProc obj1 test_ops (const_handler (Num ''123''))) obj0 empty_world =
          (Rejected (TypeError ''HyperProc.onError must return UNDEFINED or an OBJECT as state''), ?w1,
           [Invoked AUGMENT (Some ''ok'') [obj0, obj1], Invoked APPLY_TO None [obj0, obj1]]
           @ [Recovery (normalize_error boom None APPLY_TO obj0) obj0 obj1])"
    using shape_violations [where s = obj0 and env = obj1 and ops = test_ops and w = empty_world
         and h = "const_handler (Num ''123'')" and x = boom and i = None and t = APPLY_TO and st = obj0
         and ?w1.0 = ?w1 and ?w2.0 = ?w1 and r = "Num ''123''"
         and tr = "[Invoked AUGMENT (Some ''ok'') [obj0, obj1], Invoked APPLY_TO None [obj0, obj1]]",
         THEN conjunct2, THEN conjunct2, THEN conjunct1, rule_format, OF v test_loop h _ m]
    by simp
  have arg: "chain (NoInstance (Num ''5'')) (HyperProc_new obj1) =
       Inl (TypeError ''Can only chain to an instance of HyperProc'')"
    using shape_violations [where u = "Num ''5''" and hp = "HyperProc_new obj1",
         THEN conjunct2, THEN conjunct2, THEN conjunct2, THEN conjunct1] .
  have app: "run (HyperProc obj1 ([] @ OpRec None (Fn (const_fn (Num ''123''))) APPLY_TO # []) bubble_onError) obj0 empty_world =
          (case recover bubble_onError obj1
                  (HyperProcError applyTo_msg ''Symbol(APPLY_TO)'' None (Some obj0) (Some (TypeError applyTo_msg)))
                  obj0 empty_world of
             (out, w2, tr') \<Rightarrow> (out, w2, [] @ [Invoked APPLY_TO None [obj0, obj1]] @ tr'))"
    using shape_violations [where s = obj0 and env = obj1 and pre = "[]" and post = "[]" and w = empty_world
         and st = obj0 and ?w0.0 = empty_world and ?tr0.0 = "[]" and f = "const_fn (Num ''123'')" and nv = "Num ''123''"
         and ?w1.0 = empty_world and i = None and h = bubble_onError,
         THEN conjunct2, THEN conjunct2, THEN conjunct2, THEN conjunct2, THEN conjunct1, rule_format, OF v q f m, THEN conjunct1] .
  have chn: "run (HyperProc obj1 ([] @ OpRec None (ProcWithRun (const_fn (Num ''123''))) CHAIN # []) default_onError) obj0 empty_world =
          ((if isState empty_world obj0 = Inr True then Fulfilled obj0
            else Rejected (TypeError ''HyperProc.onError must return UNDEFINED or an OBJECT as state'')),
           empty_world\<lparr>console := console empty_world @
              [PipelineError (HyperProcError chain_msg ''Symbol(CHAIN)'' None (Some obj0) (Some (TypeError chain_msg)))]\<rparr>,
           [] @ [Invoked CHAIN None [obj0],
                  Recovery (HyperProcError chain_msg ''Symbol(CHAIN)'' None (Some obj0) (Some (TypeError chain_msg))) obj0 obj1])"
    using shape_violations [where s = obj0 and env = obj1 and pre = "[]" and post = "[]" and w = empty_world
         and st = obj0 and ?w0.0 = empty_world and ?tr0.0 = "[]" and g = "const_fn (Num ''123'')" and nv = "Num ''123''"
         and ?w1.0 = empty_world and i = None,
         THEN conjunct2, THEN conjunct2, THEN conjunct2, THEN conjunct2, THEN conjunct2, rule_format, OF v q f m, THEN conjunct2] .
  from input thrown result arg app chn v show ?thesis
    by (simp add: recover_def bubble_onError_def)
qed

end
